theory Spec2Isabelle
  imports Main
begin

section \<open>JavaScript values, errors and promises\<close>

text \<open>
  The fragment of JavaScript values that flows through \<^verbatim>\<open>src/js/index.js\<close> as
  opaque data: results of provider calls, call arguments, transaction objects.
  A number \<open>JNum n\<close> is an integer that JavaScript holds exactly and prints in
  full (a safe integer, below \<open>2 ^ 53\<close> in absolute value); fractions, \<^verbatim>\<open>NaN\<close> and
  the infinities are left out. An object is the list of its own enumerable
  properties, in order.
\<close>

datatype js_value =
    JUndefined
  | JNull
  | JBool bool
  | JNum int
  | JStr string
  | JArr "js_value list"
  | JObj "(string \<times> js_value) list"

text \<open>The truthiness test of \<^verbatim>\<open>if (x)\<close>, \<^verbatim>\<open>!x\<close> and \<^verbatim>\<open>x && y\<close>.\<close>

fun truthy :: "js_value \<Rightarrow> bool" where
  "truthy JUndefined = False"
| "truthy JNull = False"
| "truthy (JBool b) = b"
| "truthy (JNum n) = (n \<noteq> 0)"
| "truthy (JStr s) = (s \<noteq> [])"
| "truthy (JArr vs) = True"
| "truthy (JObj kvs) = True"

text \<open>
  \<^verbatim>\<open>JSON.stringify\<close> of the host, on this fragment. It yields no string for
  \<^verbatim>\<open>undefined\<close> (the result is \<^verbatim>\<open>undefined\<close> itself, here \<open>None\<close>); inside an
  array \<^verbatim>\<open>undefined\<close> is written \<^verbatim>\<open>null\<close>, and a property whose value is
  \<^verbatim>\<open>undefined\<close> is left out of an object. Strings are quoted, with the quote, the
  backslash and the control characters escaped.
\<close>

definition digit_char :: "nat \<Rightarrow> char" where
  "digit_char n = char_of (48 + n)"

function string_of_nat :: "nat \<Rightarrow> string" where
  "string_of_nat n =
     (if n < 10 then [digit_char n]
      else string_of_nat (n div 10) @ [digit_char (n mod 10)])"
  by pat_completeness auto
termination
  by (relation "measure (\<lambda>n. n)") auto

definition string_of_int :: "int \<Rightarrow> string" where
  "string_of_int i =
     (if i < 0 then CHR ''-'' # string_of_nat (nat (- i)) else string_of_nat (nat i))"

definition hex_char :: "nat \<Rightarrow> char" where
  "hex_char n = (if n < 10 then char_of (48 + n) else char_of (87 + n))"

definition json_escape :: "char \<Rightarrow> string" where
  "json_escape c =
     (let n = (of_char c :: nat) in
      if n = 34 then [char_of (92::nat), char_of (34::nat)]
      else if n = 92 then [char_of (92::nat), char_of (92::nat)]
      else if n = 8 then [char_of (92::nat), CHR ''b'']
      else if n = 12 then [char_of (92::nat), CHR ''f'']
      else if n = 10 then [char_of (92::nat), CHR ''n'']
      else if n = 13 then [char_of (92::nat), CHR ''r'']
      else if n = 9 then [char_of (92::nat), CHR ''t'']
      else if n < 32 then
        [char_of (92::nat), CHR ''u'', CHR ''0'', CHR ''0'', hex_char (n div 16), hex_char (n mod 16)]
      else [c])"

definition json_quote :: "string \<Rightarrow> string" where
  "json_quote s = char_of (34::nat) # concat (map json_escape s) @ [char_of (34::nat)]"

fun intercalate :: "string \<Rightarrow> string list \<Rightarrow> string" where
  "intercalate sep [] = []"
| "intercalate sep [x] = x"
| "intercalate sep (x # y # zs) = x @ sep @ intercalate sep (y # zs)"

fun JSON_stringify :: "js_value \<Rightarrow> string option" where
  "JSON_stringify JUndefined = None"
| "JSON_stringify JNull = Some ''null''"
| "JSON_stringify (JBool b) = Some (if b then ''true'' else ''false'')"
| "JSON_stringify (JNum n) = Some (string_of_int n)"
| "JSON_stringify (JStr s) = Some (json_quote s)"
| "JSON_stringify (JArr vs) =
     Some (''['' @ intercalate '',''
        (map (\<lambda>v. case JSON_stringify v of None \<Rightarrow> ''null'' | Some s \<Rightarrow> s) vs) @ '']'')"
| "JSON_stringify (JObj kvs) =
     Some (''{'' @ intercalate '',''
        (concat (map (\<lambda>kv. case JSON_stringify (snd kv) of
                              None \<Rightarrow> []
                            | Some s \<Rightarrow> [json_quote (fst kv) @ '':'' @ s]) kvs)) @ ''}'')"

text \<open>
  An \<^verbatim>\<open>Error\<close> object: its message and the \<^verbatim>\<open>eventCode\<close> property the library
  attaches to the errors it creates (absent on errors that come from elsewhere).
  \<open>TypeError\<close> stands for the error the runtime raises on a property read of
  \<^verbatim>\<open>undefined\<close> or a call of a non-function.
\<close>

datatype js_error =
    Error string "string option"
  | TypeError

fun error_message :: "js_error \<Rightarrow> string" where
  "error_message (Error m c) = m"
| "error_message TypeError = ''TypeError''"

fun error_eventCode :: "js_error \<Rightarrow> string option" where
  "error_eventCode (Error m c) = c"
| "error_eventCode TypeError = None"

text \<open>
  A promise is pending, fulfilled or rejected, and settles once: \<open>resolve\<close> and
  \<open>reject\<close> on a settled promise do nothing. The eventual outcome of a promise
  returned by an external collaborator is given in the same type, \<open>Pending\<close>
  meaning that it never settles.
\<close>

datatype 'a promise = Pending | Fulfilled 'a | Rejected js_error

datatype 'a settle_call = ResolveCall 'a | RejectCall js_error

text \<open>
  The promise under construction by \<^verbatim>\<open>new Promise((resolve, reject) => ...)\<close>: its
  state, and every call of \<open>resolve\<close> and \<open>reject\<close> the executor made, in order.
\<close>

record 'a future =
  settled :: "'a promise"
  attempts :: "'a settle_call list"

definition new_future :: "'a future" where
  "new_future = \<lparr>settled = Pending, attempts = []\<rparr>"

definition resolve :: "'a \<Rightarrow> 'a future \<Rightarrow> 'a future" where
  "resolve v f =
     \<lparr>settled = (case settled f of Pending \<Rightarrow> Fulfilled v | p \<Rightarrow> p),
      attempts = attempts f @ [ResolveCall v]\<rparr>"

definition reject :: "js_error \<Rightarrow> 'a future \<Rightarrow> 'a future" where
  "reject e f =
     \<lparr>settled = (case settled f of Pending \<Rightarrow> Rejected e | p \<Rightarrow> p),
      attempts = attempts f @ [RejectCall e]\<rparr>"

fun rejections :: "'a settle_call list \<Rightarrow> js_error list" where
  "rejections [] = []"
| "rejections (ResolveCall v # cs) = rejections cs"
| "rejections (RejectCall e # cs) = e # rejections cs"

section \<open>Environment State, configuration, events\<close>

record config =
  dappId :: "string option"
  web3 :: "nat option"
  mobileBlocked :: bool
  headlessMode :: bool

text \<open>
  The process-wide \<^verbatim>\<open>state\<close> of \<^verbatim>\<open>helpers/state\<close>, with the properties
  \<^verbatim>\<open>index.js\<close> reads or writes. Flags are kept by their truthiness;
  \<open>web3Instance\<close> is the provider instance, if one is configured.
\<close>

record state =
  version :: string
  config :: config
  validApiKey :: bool
  supportedNetwork :: bool
  mobileDevice :: bool
  validBrowser :: bool
  web3Wallet :: bool
  accessToAccounts :: bool
  legacyWallet :: bool
  modernWallet :: bool
  walletLoggedIn :: bool
  walletEnabled :: bool
  correctNetwork :: bool
  minimumBalance :: bool
  legacyWeb3 :: bool
  modernWeb3 :: bool
  web3Instance :: "nat option"
  iframe :: bool

datatype payload =
    NoPayload
  | StateFlags "(string \<times> bool) list"
  | ContractInfo string "js_value list" "string option"

record event =
  eventCode :: string
  categoryCode :: string
  reason :: "string option"
  payload :: payload

text \<open>
  The second argument of \<^verbatim>\<open>handleEvent\<close>. The only handler \<^verbatim>\<open>index.js\<close> passes is
  \<^verbatim>\<open>onClose: () => { ...; reject(errorObj) }\<close>: a closure over the \<open>reject\<close> of the
  promise \<open>onboard\<close> is returning, kept here as the error it rejects with.
\<close>

datatype handlers = OnClose js_error

text \<open>
  What \<^verbatim>\<open>index.js\<close> acts on: the state, the calls it made to the Event Notifier
  (\<^verbatim>\<open>handleEvent\<close>), the ambient \<^verbatim>\<open>window.web3\<close> and the listeners added to
  \<^verbatim>\<open>window\<close>.
\<close>

record world =
  state :: state
  notified :: "(event \<times> handlers option) list"
  window_web3 :: bool
  listeners :: "string list"

definition updateState :: "(state \<Rightarrow> state) \<Rightarrow> world \<Rightarrow> world" where
  "updateState upd w = w\<lparr>state := upd (state w)\<rparr>"

definition handleEvent :: "event \<Rightarrow> handlers option \<Rightarrow> world \<Rightarrow> world" where
  "handleEvent ev h w = w\<lparr>notified := notified w @ [(ev, h)]\<rparr>"

section \<open>Contract descriptors\<close>

text \<open>
  An entry of a contract's ABI. Entries of type constructor or fallback carry no
  \<^verbatim>\<open>name\<close>; \<^verbatim>\<open>inputs\<close> is the ordered parameter list.
\<close>

record abi_entry =
  name :: "string option"
  inputs :: "string list option"

text \<open>
  A completion callback is called as \<^verbatim>\<open>callback(errorObj)\<close> or as
  \<^verbatim>\<open>callback(null, result)\<close>; what it returns is a value the caller chooses.
\<close>

datatype cb_call = CbError js_error | CbResult js_value

type_synonym callback = "cb_call \<Rightarrow> js_value"

datatype arg = Val js_value | Fn callback

text \<open>
  The values found under the keys of a contract object:
  \<^item> \<open>Plain\<close>: data that is not callable;
  \<^item> \<open>AbiArray\<close>: an array of ABI entries (\<^verbatim>\<open>abi\<close>, \<^verbatim>\<open>_jsonInterface\<close>);
  \<^item> \<open>AbiModel\<close>: \<^verbatim>\<open>abiModel\<close>, by its mapping \<^verbatim>\<open>abi.methods\<close> from keys to
    \<^verbatim>\<open>abiItem\<close>s;
  \<^item> \<open>RawMethod h g\<close>: a function of the provider, known by its identity \<open>h\<close>, with
    the identity \<open>g\<close> of its \<^verbatim>\<open>getData\<close> property when it has one;
  \<^item> \<open>MethodMap\<close>: the \<^verbatim>\<open>methods\<close> object of a modern contract;
  \<^item> \<open>LegacyDelegate method methodABI key argsLength getData\<close>: the function
    \<open>Contract\<close> builds on the legacy path, by the variables its closures capture and
    its \<^verbatim>\<open>getData\<close> property;
  \<^item> \<open>ModernDelegate method methodABI\<close>: the function built on the modern path;
  \<^item> \<open>Inherited k\<close>: the property \<open>k\<close> that every object inherits from
    \<^verbatim>\<open>Object.prototype\<close> (\<^verbatim>\<open>toString\<close>, \<^verbatim>\<open>constructor\<close>, ...).
\<close>

datatype cvalue =
    Plain js_value
  | AbiArray "abi_entry list"
  | AbiModel "(string \<times> abi_entry) list"
  | RawMethod nat "nat option"
  | MethodMap "(string \<times> cvalue) list"
  | LegacyDelegate cvalue abi_entry string nat cvalue
  | ModernDelegate cvalue abi_entry
  | Inherited string

text \<open>
  A contract object: its identity (the reference), its own enumerable properties in
  the order of \<^verbatim>\<open>Object.keys\<close>, and the properties it inherits from its prototype.
\<close>

record contract_obj =
  ident :: nat
  own :: "(string \<times> cvalue) list"
  proto :: "(string \<times> cvalue) list"

datatype separated = Separated "callback option" "js_value list" js_value js_value

datatype send_method = PromisifiedEth nat | NativeEth nat | PromisifiedMethod nat

section \<open>External collaborators\<close>

text \<open>
  The modules \<^verbatim>\<open>index.js\<close> imports and the provider it talks to are parameters of
  the model. A collaborator that works on the Environment State is a function on
  \<open>state\<close>; one that returns a promise gives the eventual outcome of that promise;
  \<open>sendTransaction\<close> also gives the calls it made to the callback it was handed.
  \<open>legacyMethod\<close> and \<open>modernMethod\<close> return a value or throw.
  \<open>provider_call h xs\<close> is the outcome of \<^verbatim>\<open>promisify(method.call)(...xs)\<close> for
  the provider method \<open>h\<close>, and \<open>eth_sendTransaction i tx\<close> what
  \<^verbatim>\<open>web3Instance.eth.sendTransaction(tx)\<close> returns on the instance \<open>i\<close>.
\<close>

record collaborators =
  openWebsocketConnection :: "state \<Rightarrow> state"
  configureWeb3 :: "nat option \<Rightarrow> state \<Rightarrow> state"
  getUserAgent :: "state \<Rightarrow> state"
  createIframe :: "state \<Rightarrow> state"
  getTransactionQueueFromStorage :: "state \<Rightarrow> state"
  checkUserEnvironment :: "state \<Rightarrow> unit promise \<times> state"
  prepareForTransaction :: "string \<Rightarrow> state \<Rightarrow> js_value promise \<times> state"
  separateArgs :: "arg list \<Rightarrow> nat \<Rightarrow> separated"
  legacyMethod :: "cvalue \<Rightarrow> abi_entry \<Rightarrow> arg list \<Rightarrow> js_error + js_value"
  modernMethod :: "cvalue \<Rightarrow> abi_entry \<Rightarrow> arg list \<Rightarrow> js_error + js_value"
  sendTransaction ::
    "string \<Rightarrow> js_value \<Rightarrow> send_method \<Rightarrow> callback option \<Rightarrow> cvalue option
      \<Rightarrow> (string \<times> js_value list) option \<Rightarrow> state
      \<Rightarrow> js_value promise \<times> cb_call list \<times> state"
  provider_call :: "nat \<Rightarrow> js_value list \<Rightarrow> js_value promise"
  eth_sendTransaction :: "nat \<Rightarrow> js_value \<Rightarrow> js_value"


section \<open>init\<close>

definition library_version :: string where
  "library_version = ''0.4.1''"

datatype api = Api

definition plain_event :: "string \<Rightarrow> string \<Rightarrow> string option \<Rightarrow> event" where
  "plain_event code category why =
     \<lparr>eventCode = code, categoryCode = category, reason = why, payload = NoPayload\<rparr>"

text \<open>
  \<open>init\<close> up to its \<^verbatim>\<open>return\<close>: the world it leaves, and either the error it throws
  or the API object \<^verbatim>\<open>{onboard, Contract, Transaction, getState}\<close>. The argument is
  \<open>None\<close> when \<^verbatim>\<open>config\<close> is missing or not an object.
\<close>

definition init :: "collaborators \<Rightarrow> config option \<Rightarrow> world \<Rightarrow> world \<times> (js_error + api)" where
  "init c cfg w0 =
     (let w1 = updateState (\<lambda>s. s\<lparr>version := library_version\<rparr>) w0;
          w2 = updateState (openWebsocketConnection c) w1
      in case cfg of
        None \<Rightarrow>
          (let why = ''A config object is needed to initialize assist'';
               w3 = handleEvent (plain_event ''initFail'' ''initialize'' (Some why)) None w2
           in (w3, Inl (Error why (Some ''initFail''))))
      | Some conf \<Rightarrow>
          (let w3 = updateState (\<lambda>s. s\<lparr>config := conf\<rparr>) w2 in
           if dappId conf = None \<or> dappId conf = Some [] then
             (let w4 = handleEvent
                    (plain_event ''initFail'' ''initialize''
                       (Some ''No API key provided to init function'')) None w3;
                  w5 = updateState (\<lambda>s. s\<lparr>validApiKey := False\<rparr>) w4
              in (w5, Inl (Error ''API key is required'' (Some ''initFail''))))
           else
             (let w4 = (case web3 conf of
                          Some p \<Rightarrow> updateState (configureWeb3 c (Some p)) w3
                        | None \<Rightarrow> w3);
                  w5 = updateState (getUserAgent c) w4;
                  w6 = (if \<not> iframe (state w5) \<and> \<not> headlessMode conf
                        then updateState (createIframe c) w5 else w5);
                  w7 = (if mobileDevice (state w6) \<and> mobileBlocked conf
                        then updateState (\<lambda>s. s\<lparr>validBrowser := False\<rparr>)
                               (handleEvent (plain_event ''mobileBlocked'' ''initialize'' None) None w6)
                        else w6);
                  w8 = updateState (getTransactionQueueFromStorage c) w7;
                  w9 = w8\<lparr>listeners := listeners w8 @ [''unload'']\<rparr>
              in (w9, Inr Api))))"

text \<open>
  \<open>getState\<close>: \<^verbatim>\<open>await checkUserEnvironment().catch(reject); resolve(state)\<close>. When
  the check rejects, \<open>reject\<close> is called and the executor goes on to \<open>resolve\<close>.
\<close>

definition getState :: "collaborators \<Rightarrow> world \<Rightarrow> state future \<times> world" where
  "getState c w =
     (case checkUserEnvironment c (state w) of
        (Pending, s) \<Rightarrow> (new_future, w\<lparr>state := s\<rparr>)
      | (Rejected e, s) \<Rightarrow> (resolve s (reject e new_future), w\<lparr>state := s\<rparr>)
      | (Fulfilled u, s) \<Rightarrow> (resolve s new_future, w\<lparr>state := s\<rparr>))"

text \<open>
  The continuation \<open>init\<close> registers before it returns:
  \<^verbatim>\<open>getState().then(state => handleEvent({eventCode: 'initState', ...}))\<close>.
\<close>

definition init_then :: "collaborators \<Rightarrow> world \<Rightarrow> world" where
  "init_then c w =
     (case getState c w of
        (f, w1) \<Rightarrow>
          (case settled f of
             Fulfilled s \<Rightarrow>
               handleEvent
                 \<lparr>eventCode = ''initState'', categoryCode = ''initialize'', reason = None,
                  payload = StateFlags
                    [(''accessToAccounts'', accessToAccounts s),
                     (''correctNetwork'', correctNetwork s),
                     (''legacyWallet'', legacyWallet s),
                     (''legacyWeb3'', legacyWeb3 s),
                     (''minimumBalance'', minimumBalance s),
                     (''mobileDevice'', mobileDevice s),
                     (''modernWallet'', modernWallet s),
                     (''modernWeb3'', modernWeb3 s),
                     (''walletEnabled'', walletEnabled s),
                     (''walletLoggedIn'', walletLoggedIn s),
                     (''web3Wallet'', web3Wallet s),
                     (''validBrowser'', validBrowser s)]\<rparr> None w1
           | Pending \<Rightarrow> w1
           | Rejected e \<Rightarrow> w1))"

section \<open>onboard\<close>

definition tagged :: "string \<Rightarrow> string \<Rightarrow> js_error" where
  "tagged msg code = Error msg (Some code)"

text \<open>The statement \<^verbatim>\<open>if (b) { body }\<close>, as a transformer of what the body updates.\<close>

definition js_if :: "bool \<Rightarrow> ('s \<Rightarrow> 's) \<Rightarrow> 's \<Rightarrow> 's" where
  "js_if b body f = (if b then body f else f)"

text \<open>
  The body of the headless executor after the \<^verbatim>\<open>await\<close>: every \<^verbatim>\<open>if\<close> is
  evaluated in turn, none returns, and the last statement is \<open>resolve\<close>.
\<close>

definition headless_checks :: "state \<Rightarrow> js_value future \<Rightarrow> js_value future" where
  "headless_checks s f0 =
     (let f1 = js_if (mobileDevice s)
                 (reject (tagged ''User is on a mobile device'' ''mobileBlocked'')) f0;
          f2 = js_if (\<not> validBrowser s)
                 (reject (tagged ''User has an invalid browser'' ''browserFail'')) f1;
          f3 = js_if (\<not> web3Wallet s)
                 (reject (tagged ''User does not have a web3 wallet installed'' ''walletFail'')) f2;
          f4 = js_if (\<not> accessToAccounts s)
                 (\<lambda>g0.
                    let g1 = js_if (legacyWallet s)
                               (reject (tagged ''User needs to login to their account''
                                  ''walletLogin'')) g0;
                        g2 = js_if (modernWallet s)
                               (\<lambda>h0.
                                  let h1 = js_if (\<not> walletLoggedIn s)
                                             (reject (tagged ''User needs to login to wallet''
                                                ''walletLoginEnable'')) h0;
                                      h2 = js_if (\<not> walletEnabled s)
                                             (reject (tagged ''User needs to enable wallet''
                                                ''walletEnable'')) h1
                                  in h2) g1
                    in g2) f3;
          f5 = js_if (\<not> correctNetwork s)
                 (reject (tagged ''User is on the wrong network'' ''networkFail'')) f4;
          f6 = js_if (\<not> minimumBalance s)
                 (reject (tagged
                    ''User does not have the minimum balance specified in the config''
                    ''nsfFail'')) f5
      in resolve (JStr ''User is ready to transact'') f6)"

definition Promise_reject :: "js_error \<Rightarrow> 'a future" where
  "Promise_reject e = \<lparr>settled = Rejected e, attempts = []\<rparr>"

definition mobile_error :: js_error where
  "mobile_error = tagged ''User is on a mobile device'' ''mobileBlocked''"

definition onboard :: "collaborators \<Rightarrow> world \<Rightarrow> js_value future \<times> world" where
  "onboard c w =
     (if headlessMode (config (state w)) then
        (case checkUserEnvironment c (state w) of
           (Pending, s) \<Rightarrow> (new_future, w\<lparr>state := s\<rparr>)
         | (Rejected e, s) \<Rightarrow> (headless_checks s (reject e new_future), w\<lparr>state := s\<rparr>)
         | (Fulfilled u, s) \<Rightarrow> (headless_checks s new_future, w\<lparr>state := s\<rparr>))
      else if \<not> validApiKey (state w) then
        (Promise_reject (tagged ''Your api key is not valid'' ''initFail''), w)
      else if \<not> supportedNetwork (state w) then
        (Promise_reject (tagged ''This network is not supported'' ''initFail''), w)
      else if mobileDevice (state w) then
        (let w1 = handleEvent (plain_event ''mobileBlocked'' ''onboard'' None)
                    (Some (OnClose mobile_error)) w;
             w2 = updateState (\<lambda>s. s\<lparr>validBrowser := False\<rparr>) w1
         in (new_future, w2))
      else
        (case prepareForTransaction c ''onboard'' (state w) of
           (Pending, s) \<Rightarrow> (new_future, w\<lparr>state := s\<rparr>)
         | (Rejected e, s) \<Rightarrow> (resolve JUndefined (reject e new_future), w\<lparr>state := s\<rparr>)
         | (Fulfilled ready, s) \<Rightarrow> (resolve ready new_future, w\<lparr>state := s\<rparr>)))"

text \<open>
  Running a handler of a notification: \<^verbatim>\<open>onClose\<close> calls the \<open>reject\<close> it closes
  over. The presentation layer decides when, if ever: \<open>ui_run\<close> follows the promise
  through a sequence of its steps.
\<close>

fun invoke_handler :: "handlers \<Rightarrow> 'a future \<Rightarrow> 'a future" where
  "invoke_handler (OnClose e) f = reject e f"

datatype ui_step = Dismissed | Idle

fun ui_run :: "handlers \<Rightarrow> ui_step list \<Rightarrow> 'a future \<Rightarrow> 'a future" where
  "ui_run h [] f = f"
| "ui_run h (Dismissed # steps) f = ui_run h steps (invoke_handler h f)"
| "ui_run h (Idle # steps) f = ui_run h steps f"

text \<open>
  The six readiness checks as the specification lists them (section 4.1), by their
  position: when a check fails, and the tag it reports.
\<close>

definition check_fails :: "state \<Rightarrow> nat \<Rightarrow> bool" where
  "check_fails s i =
     (if i = 1 then mobileDevice s
      else if i = 2 then \<not> validBrowser s
      else if i = 3 then \<not> web3Wallet s
      else if i = 4 then
        \<not> accessToAccounts s \<and>
        (legacyWallet s \<or> (modernWallet s \<and> \<not> walletLoggedIn s)
          \<or> (modernWallet s \<and> \<not> walletEnabled s))
      else if i = 5 then \<not> correctNetwork s
      else if i = 6 then \<not> minimumBalance s
      else False)"

definition check_tag :: "state \<Rightarrow> nat \<Rightarrow> string" where
  "check_tag s i =
     (if i = 1 then ''mobileBlocked''
      else if i = 2 then ''browserFail''
      else if i = 3 then ''walletFail''
      else if i = 4 then
        (if legacyWallet s then ''walletLogin''
         else if \<not> walletLoggedIn s then ''walletLoginEnable''
         else ''walletEnable'')
      else if i = 5 then ''networkFail''
      else ''nsfFail'')"

text \<open>
  The errors the headless executor passes to \<open>reject\<close>, in the order of the calls:
  one for each \<^verbatim>\<open>if\<close> of the body whose condition holds.
\<close>

definition headless_failures :: "state \<Rightarrow> js_error list" where
  "headless_failures s =
     (if mobileDevice s then [tagged ''User is on a mobile device'' ''mobileBlocked''] else [])
   @ (if \<not> validBrowser s then [tagged ''User has an invalid browser'' ''browserFail''] else [])
   @ (if \<not> web3Wallet s
      then [tagged ''User does not have a web3 wallet installed'' ''walletFail''] else [])
   @ (if \<not> accessToAccounts s \<and> legacyWallet s
      then [tagged ''User needs to login to their account'' ''walletLogin''] else [])
   @ (if \<not> accessToAccounts s \<and> modernWallet s \<and> \<not> walletLoggedIn s
      then [tagged ''User needs to login to wallet'' ''walletLoginEnable''] else [])
   @ (if \<not> accessToAccounts s \<and> modernWallet s \<and> \<not> walletEnabled s
      then [tagged ''User needs to enable wallet'' ''walletEnable''] else [])
   @ (if \<not> correctNetwork s then [tagged ''User is on the wrong network'' ''networkFail''] else [])
   @ (if \<not> minimumBalance s
      then [tagged ''User does not have the minimum balance specified in the config'' ''nsfFail'']
      else [])"

section \<open>Contract\<close>

fun cv_truthy :: "cvalue \<Rightarrow> bool" where
  "cv_truthy (Plain v) = truthy v"
| "cv_truthy (AbiArray es) = True"
| "cv_truthy (AbiModel ms) = True"
| "cv_truthy (RawMethod h g) = True"
| "cv_truthy (MethodMap ms) = True"
| "cv_truthy (LegacyDelegate m a k n g) = True"
| "cv_truthy (ModernDelegate m a) = True"
| "cv_truthy (Inherited k) = True"

text \<open>
  A property read \<^verbatim>\<open>contractObj[k]\<close>: an own property first, then an inherited one.
  For a contract object \<open>proto\<close> lists all that it inherits.
\<close>

definition get_prop :: "contract_obj \<Rightarrow> string \<Rightarrow> cvalue" where
  "get_prop obj k =
     (case map_of (own obj) k of
        Some v \<Rightarrow> v
      | None \<Rightarrow> (case map_of (proto obj) k of Some v \<Rightarrow> v | None \<Rightarrow> Plain JUndefined))"

text \<open>The assignment \<^verbatim>\<open>obj[k] = v\<close> on the own properties of an object.\<close>

fun set_prop :: "string \<Rightarrow> cvalue \<Rightarrow> (string \<times> cvalue) list \<Rightarrow> (string \<times> cvalue) list" where
  "set_prop k v [] = [(k, v)]"
| "set_prop k v (p # ps) = (if fst p = k then (k, v) # ps else p # set_prop k v ps)"

text \<open>
  The names of the properties of \<^verbatim>\<open>Object.prototype\<close>, which a read finds on any
  object that has no own property of that name.
\<close>

definition object_prototype_keys :: "string list" where
  "object_prototype_keys =
     [''constructor'', ''__defineGetter__'', ''__defineSetter__'', ''hasOwnProperty'',
      ''__lookupGetter__'', ''__lookupSetter__'', ''isPrototypeOf'', ''propertyIsEnumerable'',
      ''toString'', ''valueOf'', ''__proto__'', ''toLocaleString'']"

definition inherited :: "string \<Rightarrow> cvalue" where
  "inherited k = (if k \<in> set object_prototype_keys then Inherited k else Plain JUndefined)"

text \<open>
  A property read \<^verbatim>\<open>v[k]\<close> on a value: a \<open>TypeError\<close> on \<^verbatim>\<open>undefined\<close> and
  \<^verbatim>\<open>null\<close>; otherwise an own property of the value, else the one inherited from
  \<^verbatim>\<open>Object.prototype\<close>, else \<^verbatim>\<open>undefined\<close>. Of the own properties of functions
  only \<^verbatim>\<open>getData\<close> is kept; what strings, arrays and functions inherit from
  their own prototypes (\<^verbatim>\<open>length\<close>, \<^verbatim>\<open>call\<close>, ...) is not modelled.
\<close>

fun member :: "cvalue \<Rightarrow> string \<Rightarrow> js_error + cvalue" where
  "member (Plain JUndefined) k = Inl TypeError"
| "member (Plain JNull) k = Inl TypeError"
| "member (Plain (JObj kvs)) k =
     Inr (case map_of kvs k of Some v \<Rightarrow> Plain v | None \<Rightarrow> inherited k)"
| "member (Plain v) k = Inr (inherited k)"
| "member (MethodMap ms) k =
     Inr (case map_of ms k of Some v \<Rightarrow> v | None \<Rightarrow> inherited k)"
| "member (RawMethod h g) k =
     Inr (if k = ''getData''
          then (case g of Some i \<Rightarrow> RawMethod i None | None \<Rightarrow> Plain JUndefined)
          else inherited k)"
| "member (LegacyDelegate m a key n g) k =
     Inr (if k = ''getData'' then g else inherited k)"
| "member (AbiArray es) k = Inr (inherited k)"
| "member (AbiModel ms) k = Inr (inherited k)"
| "member (ModernDelegate m a) k = Inr (inherited k)"
| "member (Inherited n) k = Inr (inherited k)"

text \<open>
  An element of an array of plain data read as an ABI entry: \<^verbatim>\<open>name\<close> and
  \<^verbatim>\<open>inputs\<close> are the properties of that name of an object, and are absent on any
  other value. A \<^verbatim>\<open>name\<close> that is not a string matches no key and counts as
  absent; of \<^verbatim>\<open>inputs\<close> only the \<^verbatim>\<open>length\<close> is used, which an array and a string
  have.
\<close>

definition entry_of :: "js_value \<Rightarrow> abi_entry" where
  "entry_of v =
     (case v of
        JObj kvs \<Rightarrow>
          \<lparr>name = (case map_of kvs ''name'' of Some (JStr n) \<Rightarrow> Some n | other \<Rightarrow> None),
           inputs = (case map_of kvs ''inputs'' of
                       Some (JArr xs) \<Rightarrow> Some (map (\<lambda>x. []) xs)
                     | Some (JStr cs) \<Rightarrow> Some (map (\<lambda>x. []) cs)
                     | other \<Rightarrow> None)\<rparr>
      | other \<Rightarrow> \<lparr>name = None, inputs = None\<rparr>)"

text \<open>
  The value bound to \<^verbatim>\<open>abi\<close> as an array of entries, when it is one. Reading
  \<^verbatim>\<open>name\<close> off an \<^verbatim>\<open>undefined\<close> or \<^verbatim>\<open>null\<close> element is a \<open>TypeError\<close>, as
  calling \<^verbatim>\<open>find\<close> or \<^verbatim>\<open>reduce\<close> on a value that is no array is: both are
  \<open>None\<close> here.
\<close>

fun as_array :: "cvalue \<Rightarrow> abi_entry list option" where
  "as_array (AbiArray es) = Some es"
| "as_array (Plain (JArr vs)) =
     (if list_ex (\<lambda>v. v = JUndefined \<or> v = JNull) vs then None
      else Some (map entry_of vs))"
| "as_array v = None"

text \<open>
  \<^verbatim>\<open>contractObj.abi || contractObj._jsonInterface ||
  Object.keys(contractObj.abiModel.abi.methods).map(key => ...abiItem)\<close>.
\<close>

definition resolve_abi :: "contract_obj \<Rightarrow> js_error + abi_entry list option" where
  "resolve_abi contractObj =
     (if cv_truthy (get_prop contractObj ''abi'') then
        Inr (as_array (get_prop contractObj ''abi''))
      else if cv_truthy (get_prop contractObj ''_jsonInterface'') then
        Inr (as_array (get_prop contractObj ''_jsonInterface''))
      else
        (case get_prop contractObj ''abiModel'' of
           AbiModel ms \<Rightarrow> Inr (Some (map snd ms))
         | v \<Rightarrow> Inl TypeError))"

text \<open>One round of the reducer over the keys, on the legacy path.\<close>

definition legacy_step ::
  "abi_entry list option \<Rightarrow> contract_obj \<Rightarrow> (string \<times> cvalue) list \<Rightarrow> string
    \<Rightarrow> js_error + (string \<times> cvalue) list" where
  "legacy_step abi contractObj newContractObj key =
     (case abi of
        None \<Rightarrow> Inl TypeError
      | Some es \<Rightarrow>
          (case find (\<lambda>m. name m = Some key) es of
             None \<Rightarrow> Inr (set_prop key (get_prop contractObj key) newContractObj)
           | Some methodABI \<Rightarrow>
               (case inputs methodABI of
                  None \<Rightarrow> Inl TypeError
                | Some ins \<Rightarrow>
                    (case member (get_prop contractObj key) ''getData'' of
                       Inl e \<Rightarrow> Inl e
                     | Inr g \<Rightarrow>
                         Inr (set_prop key
                                (LegacyDelegate (get_prop contractObj key) methodABI key
                                   (length ins) g)
                                newContractObj)))))"

text \<open>
  The property key \<^verbatim>\<open>obj[name]\<close> writes to: the name, or \<^verbatim>\<open>"undefined"\<close> for an
  entry without one.
\<close>

definition prop_key :: "string option \<Rightarrow> string" where
  "prop_key n = (case n of Some k \<Rightarrow> k | None \<Rightarrow> ''undefined'')"

text \<open>\<^verbatim>\<open>abi.reduce((obj, methodABI) => ..., {})\<close> of the modern path.\<close>

fun modern_methods ::
  "cvalue \<Rightarrow> abi_entry list \<Rightarrow> (string \<times> cvalue) list \<Rightarrow> js_error + (string \<times> cvalue) list" where
  "modern_methods mv [] obj = Inr obj"
| "modern_methods mv (methodABI # rest) obj =
     (case member mv (prop_key (name methodABI)) of
        Inl e \<Rightarrow> Inl e
      | Inr meth \<Rightarrow>
          modern_methods mv rest
            (set_prop (prop_key (name methodABI)) (ModernDelegate meth methodABI) obj))"

definition modern_step ::
  "abi_entry list option \<Rightarrow> contract_obj \<Rightarrow> (string \<times> cvalue) list \<Rightarrow> string
    \<Rightarrow> js_error + (string \<times> cvalue) list" where
  "modern_step abi contractObj newContractObj key =
     (if key \<noteq> ''methods'' then
        Inr (set_prop key (get_prop contractObj key) newContractObj)
      else
        (case abi of
           None \<Rightarrow> Inl TypeError
         | Some es \<Rightarrow>
             (case modern_methods (get_prop contractObj ''methods'') es [] of
                Inl e \<Rightarrow> Inl e
              | Inr ms \<Rightarrow> Inr (set_prop ''methods'' (MethodMap ms) newContractObj))))"

text \<open>\<^verbatim>\<open>contractKeys.reduce(..., contractClone)\<close>; a throw ends it.\<close>

fun delegate ::
  "bool \<Rightarrow> abi_entry list option \<Rightarrow> contract_obj \<Rightarrow> string list \<Rightarrow> (string \<times> cvalue) list
    \<Rightarrow> js_error + (string \<times> cvalue) list" where
  "delegate legacy abi contractObj [] newContractObj = Inr newContractObj"
| "delegate legacy abi contractObj (key # keys) newContractObj =
     (case (if legacy then legacy_step abi contractObj newContractObj key
            else modern_step abi contractObj newContractObj key) of
        Inl e \<Rightarrow> Inl e
      | Inr next_obj \<Rightarrow> delegate legacy abi contractObj keys next_obj)"

text \<open>
  \<open>Contract\<close>, a closure of \<open>init\<close> over its \<^verbatim>\<open>config\<close> (\<open>conf\<close>). \<open>fresh\<close> is
  the identity of the object \<^verbatim>\<open>Object.create\<close> allocates.
\<close>

definition Contract ::
  "collaborators \<Rightarrow> config \<Rightarrow> nat \<Rightarrow> contract_obj \<Rightarrow> world \<Rightarrow> world \<times> (js_error + contract_obj)" where
  "Contract c conf fresh contractObj w =
     (if \<not> validApiKey (state w) then
        (w, Inl (tagged ''Your API key is not valid'' ''initFail''))
      else if \<not> supportedNetwork (state w) then
        (w, Inl (tagged ''This network is not supported'' ''initFail''))
      else if mobileDevice (state w) \<and> \<not> mobileBlocked conf then
        (w, Inr contractObj)
      else if web3Instance (state w) = None \<and> \<not> window_web3 w then
        (w, Inl (tagged ''A web3 instance is needed to decorate contract'' ''initFail''))
      else
        (let w1 = (if web3Instance (state w) = None
                   then updateState (configureWeb3 c None) w else w)
         in case resolve_abi contractObj of
              Inl e \<Rightarrow> (w1, Inl e)
            | Inr abi \<Rightarrow>
                (case delegate (legacyWeb3 (state w1)) abi contractObj
                        (map fst (own contractObj)) [] of
                   Inl e \<Rightarrow> (w1, Inl e)
                 | Inr newOwn \<Rightarrow>
                     (w1, Inr \<lparr>ident = fresh, own = newOwn, proto = proto contractObj\<rparr>))))"

section \<open>Invoking the delegates\<close>

text \<open>
  A run of an \<^verbatim>\<open>async\<close> function of a delegate: the promise it returns, the calls
  made to the caller's callback, and the world it leaves.
\<close>

record run =
  returned :: "unit promise"
  callbacks :: "cb_call list"
  after :: world

text \<open>\<^verbatim>\<open>callback && callback(...)\<close>: the value of the expression and the call made.\<close>

definition call_back :: "callback option \<Rightarrow> cb_call \<Rightarrow> js_value \<times> cb_call list" where
  "call_back cb x = (case cb of None \<Rightarrow> (JUndefined, []) | Some k \<Rightarrow> (k x, [x]))"

text \<open>
  The rest of \<^verbatim>\<open>.call\<close> once \<^verbatim>\<open>result\<close> is bound: the success callback under
  \<^verbatim>\<open>if (result)\<close>, then the \<^verbatim>\<open>contractQuery\<close> event.
\<close>

definition call_finish ::
  "callback option \<Rightarrow> string \<Rightarrow> js_value list \<Rightarrow> js_value \<Rightarrow> cb_call list \<Rightarrow> world \<Rightarrow> run" where
  "call_finish cb methodName params result done w =
     \<lparr>returned = Fulfilled (),
      callbacks = done @ (if truthy result then snd (call_back cb (CbResult result)) else []),
      after = handleEvent
                \<lparr>eventCode = ''contractQuery'', categoryCode = ''activeContract'', reason = None,
                 payload = ContractInfo methodName params (JSON_stringify result)\<rparr> None w\<rparr>"

text \<open>
  \<^verbatim>\<open>newContractObj[name].call(...allArgs)\<close> of a legacy delegate. A \<open>method\<close> that
  is not a function of the provider has no \<^verbatim>\<open>call\<close> to promisify: the
  \<open>TypeError\<close> rejects the promise the \<^verbatim>\<open>async\<close> function returns.
\<close>

definition delegate_call ::
  "collaborators \<Rightarrow> cvalue \<Rightarrow> string \<Rightarrow> nat \<Rightarrow> arg list \<Rightarrow> world \<Rightarrow> run" where
  "delegate_call c meth methodName argsLength allArgs w =
     (case separateArgs c allArgs argsLength of
        Separated cb params tx block \<Rightarrow>
          (case meth of
             RawMethod h g \<Rightarrow>
               (case provider_call c h (params @ [tx, block]) of
                  Pending \<Rightarrow> \<lparr>returned = Pending, callbacks = [], after = w\<rparr>
                | Fulfilled result \<Rightarrow> call_finish cb methodName params result [] w
                | Rejected errorObj \<Rightarrow>
                    call_finish cb methodName params (fst (call_back cb (CbError errorObj)))
                      (snd (call_back cb (CbError errorObj))) w)
           | v \<Rightarrow> \<lparr>returned = Rejected TypeError, callbacks = [], after = w\<rparr>))"

text \<open>\<^verbatim>\<open>newContractObj[name].sendTransaction(...allArgs)\<close> of a legacy delegate.\<close>

definition delegate_sendTransaction ::
  "collaborators \<Rightarrow> cvalue \<Rightarrow> string \<Rightarrow> nat \<Rightarrow> arg list \<Rightarrow> world \<Rightarrow> run" where
  "delegate_sendTransaction c meth methodName argsLength allArgs w =
     (case separateArgs c allArgs argsLength of
        Separated cb params tx block \<Rightarrow>
          (case meth of
             RawMethod h g \<Rightarrow>
               (case sendTransaction c ''activeContract'' tx (PromisifiedMethod h) cb
                       (Some meth) (Some (methodName, params)) (state w) of
                  (Pending, made, s) \<Rightarrow>
                    \<lparr>returned = Pending, callbacks = made, after = w\<lparr>state := s\<rparr>\<rparr>
                | (Fulfilled v, made, s) \<Rightarrow>
                    \<lparr>returned = Fulfilled (), callbacks = made, after = w\<lparr>state := s\<rparr>\<rparr>
                | (Rejected errorObj, made, s) \<Rightarrow>
                    \<lparr>returned = Fulfilled (),
                     callbacks = made @ snd (call_back cb (CbError errorObj)),
                     after = w\<lparr>state := s\<rparr>\<rparr>)
           | v \<Rightarrow> \<lparr>returned = Rejected TypeError, callbacks = [], after = w\<rparr>))"

text \<open>
  Calling a value the wrapped contract holds: the delegates route the arguments to
  \<open>legacyMethod\<close> and \<open>modernMethod\<close> with the method they captured.
\<close>

fun invoke :: "collaborators \<Rightarrow> cvalue \<Rightarrow> arg list \<Rightarrow> js_error + js_value" where
  "invoke c (LegacyDelegate meth methodABI key n g) xs = legacyMethod c meth methodABI xs"
| "invoke c (ModernDelegate meth methodABI) xs = modernMethod c meth methodABI xs"
| "invoke c v xs = Inl TypeError"

text \<open>The properties \<^verbatim>\<open>call\<close> and \<^verbatim>\<open>sendTransaction\<close> of a value, invoked.\<close>

fun invoke_call :: "collaborators \<Rightarrow> cvalue \<Rightarrow> arg list \<Rightarrow> world \<Rightarrow> js_error + run" where
  "invoke_call c (LegacyDelegate meth methodABI key n g) xs w =
     Inr (delegate_call c meth key n xs w)"
| "invoke_call c v xs w = Inl TypeError"

section \<open>Transaction\<close>




section \<open>Notions used in the statements\<close>

text \<open>
  A key of the contract object that names an entry of its ABI, as the legacy path
  looks it up: \<^verbatim>\<open>abi.find(method => method.name === key)\<close>.
\<close>

definition is_abi_key :: "contract_obj \<Rightarrow> string \<Rightarrow> bool" where
  "is_abi_key contractObj key =
     (case resolve_abi contractObj of
        Inr (Some es) \<Rightarrow> find (\<lambda>m. name m = Some key) es \<noteq> None
      | other \<Rightarrow> False)"

text \<open>The keys a round of the reducer copies over unchanged, on either path.\<close>

definition passes_through :: "bool \<Rightarrow> abi_entry list option \<Rightarrow> string \<Rightarrow> bool" where
  "passes_through legacy abi key =
     (if legacy then
        (case abi of Some es \<Rightarrow> find (\<lambda>m. name m = Some key) es = None | None \<Rightarrow> True)
      else key \<noteq> ''methods'')"

section \<open>Sample inputs\<close>

text \<open>Concrete configurations, states and collaborators on which the theorems are run.\<close>

definition sample_config :: config where
  "sample_config =
     \<lparr>dappId = Some ''sample-key'', web3 = None, mobileBlocked = True, headlessMode = True\<rparr>"

definition sample_state :: state where
  "sample_state =
     \<lparr>version = ''0.4.1'', config = sample_config, validApiKey = True, supportedNetwork = True,
      mobileDevice = False, validBrowser = True, web3Wallet = True, accessToAccounts = True,
      legacyWallet = False, modernWallet = True, walletLoggedIn = True, walletEnabled = True,
      correctNetwork = True, minimumBalance = True, legacyWeb3 = False, modernWeb3 = True,
      web3Instance = Some 1, iframe = False\<rparr>"

definition sample_world :: world where
  "sample_world = \<lparr>state = sample_state, notified = [], window_web3 = True, listeners = []\<rparr>"

fun arg_value :: "arg \<Rightarrow> js_value" where
  "arg_value (Val v) = v"
| "arg_value (Fn k) = JUndefined"

text \<open>
  A splitter of call arguments: the first \<open>n\<close> are the positional arguments, a
  function in last place is the callback, and what stands between them is the
  transaction object and the default block.
\<close>

fun sample_separateArgs :: "arg list \<Rightarrow> nat \<Rightarrow> separated" where
  "sample_separateArgs allArgs n =
     (case rev (drop n allArgs) of
        Fn k # others \<Rightarrow>
          Separated (Some k) (map arg_value (take n allArgs))
            (case rev others of [] \<Rightarrow> JUndefined | x # xs \<Rightarrow> arg_value x)
            (case rev others of x # y # xs \<Rightarrow> arg_value y | xs \<Rightarrow> JUndefined)
      | others \<Rightarrow>
          Separated None (map arg_value (take n allArgs))
            (case rev others of [] \<Rightarrow> JUndefined | x # xs \<Rightarrow> arg_value x)
            (case rev others of x # y # xs \<Rightarrow> arg_value y | xs \<Rightarrow> JUndefined))"

text \<open>
  Collaborators that leave the state alone and succeed: the environment check is
  fulfilled, a submission is fulfilled with a hash and makes no call to the callback
  of its own, a provider call returns \<^verbatim>\<open>false\<close>.
\<close>

definition sample_collaborators :: collaborators where
  "sample_collaborators =
     \<lparr>openWebsocketConnection = (\<lambda>s. s),
      configureWeb3 = (\<lambda>p s. s\<lparr>web3Instance := Some 1\<rparr>),
      getUserAgent = (\<lambda>s. s),
      createIframe = (\<lambda>s. s\<lparr>iframe := True\<rparr>),
      getTransactionQueueFromStorage = (\<lambda>s. s),
      checkUserEnvironment = (\<lambda>s. (Fulfilled (), s)),
      prepareForTransaction = (\<lambda>t s. (Fulfilled (JStr ''ready''), s)),
      separateArgs = sample_separateArgs,
      legacyMethod = (\<lambda>m a xs. Inr JUndefined),
      modernMethod = (\<lambda>m a xs. (case m of Plain v \<Rightarrow> Inl TypeError | f \<Rightarrow> Inr JUndefined)),
      sendTransaction = (\<lambda>category tx sm cb m ctx s. (Fulfilled (JStr ''0xhash''), [], s)),
      provider_call = (\<lambda>h xs. Fulfilled (JBool False)),
      eth_sendTransaction = (\<lambda>i tx. JUndefined)\<rparr>"

definition network_error :: js_error where
  "network_error = Error ''Network request failed'' None"

text \<open>The same collaborators, with an environment check that rejects.\<close>

definition failing_environment :: collaborators where
  "failing_environment =
     sample_collaborators\<lparr>checkUserEnvironment := (\<lambda>s. (Rejected network_error, s))\<rparr>"

text \<open>A headless run on a mobile device with an invalid browser.\<close>

definition mobile_world :: world where
  "mobile_world =
     sample_world\<lparr>state := sample_state\<lparr>mobileDevice := True, validBrowser := False\<rparr>\<rparr>"

text \<open>An interactive session on a mobile device.\<close>

definition interactive_mobile_world :: world where
  "interactive_mobile_world =
     sample_world\<lparr>state := sample_state
       \<lparr>mobileDevice := True, config := sample_config\<lparr>headlessMode := False\<rparr>\<rparr>\<rparr>"

text \<open>The configuration of \<^verbatim>\<open>init({})\<close>.\<close>

definition empty_config :: config where
  "empty_config = \<lparr>dappId = None, web3 = None, mobileBlocked = False, headlessMode = False\<rparr>"

text \<open>Contract objects of a legacy and of a modern provider, and what wrapping makes of them.\<close>

definition transfer_abi :: abi_entry where
  "transfer_abi = \<lparr>name = Some ''transfer'', inputs = Some [''address'', ''uint256'']\<rparr>"

definition isOwner_abi :: abi_entry where
  "isOwner_abi = \<lparr>name = Some ''isOwner'', inputs = Some [''address'']\<rparr>"

definition burn_abi :: abi_entry where
  "burn_abi = \<lparr>name = Some ''burn'', inputs = Some [''uint256'']\<rparr>"

definition legacy_contract :: contract_obj where
  "legacy_contract =
     \<lparr>ident = 1,
      own = [(''address'', Plain (JStr ''0xc0ffee'')),
             (''abi'', AbiArray [transfer_abi, isOwner_abi]),
             (''transfer'', RawMethod 10 (Some 11)),
             (''isOwner'', RawMethod 12 (Some 13))],
      proto = []\<rparr>"

definition wrapped_legacy_contract :: contract_obj where
  "wrapped_legacy_contract =
     \<lparr>ident = 99,
      own = [(''address'', Plain (JStr ''0xc0ffee'')),
             (''abi'', AbiArray [transfer_abi, isOwner_abi]),
             (''transfer'',
                LegacyDelegate (RawMethod 10 (Some 11)) transfer_abi ''transfer'' 2 (RawMethod 11 None)),
             (''isOwner'',
                LegacyDelegate (RawMethod 12 (Some 13)) isOwner_abi ''isOwner'' 1 (RawMethod 13 None))],
      proto = []\<rparr>"

text \<open>The ABI of the modern contract lists \<^verbatim>\<open>burn\<close>, which its \<^verbatim>\<open>methods\<close> lack.\<close>

definition modern_contract :: contract_obj where
  "modern_contract =
     \<lparr>ident = 2,
      own = [(''_address'', Plain (JStr ''0xc0ffee'')),
             (''_jsonInterface'', AbiArray [transfer_abi, burn_abi]),
             (''methods'', MethodMap [(''transfer'', RawMethod 20 None)])],
      proto = []\<rparr>"

definition wrapped_modern_contract :: contract_obj where
  "wrapped_modern_contract =
     \<lparr>ident = 99,
      own = [(''_address'', Plain (JStr ''0xc0ffee'')),
             (''_jsonInterface'', AbiArray [transfer_abi, burn_abi]),
             (''methods'',
                MethodMap [(''transfer'', ModernDelegate (RawMethod 20 None) transfer_abi),
                           (''burn'', ModernDelegate (Plain JUndefined) burn_abi)])],
      proto = []\<rparr>"

definition legacy_world :: world where
  "legacy_world =
     sample_world\<lparr>state := sample_state\<lparr>legacyWeb3 := True, modernWeb3 := False\<rparr>\<rparr>"

text \<open>A configuration that lets mobile devices through, and mobile sessions.\<close>

definition open_config :: config where
  "open_config = sample_config\<lparr>mobileBlocked := False\<rparr>"

definition allowed_mobile_world :: world where
  "allowed_mobile_world =
     sample_world\<lparr>state := sample_state\<lparr>mobileDevice := True, config := open_config\<rparr>\<rparr>"

definition invalid_key_world :: world where
  "invalid_key_world = sample_world\<lparr>state := sample_state\<lparr>validApiKey := False\<rparr>\<rparr>"

definition invalid_key_mobile_world :: world where
  "invalid_key_mobile_world =
     sample_world\<lparr>state := sample_state
       \<lparr>mobileDevice := True, validApiKey := False, config := open_config\<rparr>\<rparr>"



definition reverted_error :: js_error where
  "reverted_error = Error ''execution reverted'' None"

definition rejecting_provider :: collaborators where
  "rejecting_provider =
     sample_collaborators\<lparr>provider_call := (\<lambda>h xs. Rejected reverted_error)\<rparr>"

definition silent_callback :: callback where
  "silent_callback = (\<lambda>x. JUndefined)"

definition acknowledging_callback :: callback where
  "acknowledging_callback = (\<lambda>x. JBool True)"


section \<open>Promises settle once\<close>

lemma settled_reject:
  "settled (reject e f) = (if settled f = Pending then Rejected e else settled f)"
  by (cases "settled f") (simp_all add: reject_def)

lemma settled_resolve:
  "settled (resolve v f) = (if settled f = Pending then Fulfilled v else settled f)"
  by (cases "settled f") (simp_all add: resolve_def)

lemma rejections_append: "rejections (xs @ ys) = rejections xs @ rejections ys"
  by (induction xs rule: rejections.induct) simp_all

lemma rejections_reject: "rejections (attempts (reject e f)) = rejections (attempts f) @ [e]"
  by (simp add: reject_def rejections_append)

lemma rejections_resolve: "rejections (attempts (resolve v f)) = rejections (attempts f)"
  by (simp add: resolve_def rejections_append)

lemma settled_fold_reject_settled:
  "settled f \<noteq> Pending \<Longrightarrow> settled (fold reject es f) = settled f"
  by (induction es arbitrary: f) (simp_all add: settled_reject)

lemma settled_fold_reject:
  "settled f = Pending \<Longrightarrow>
     settled (fold reject es f) = (case es of [] \<Rightarrow> Pending | e # rest \<Rightarrow> Rejected e)"
  by (cases es) (simp_all add: settled_fold_reject_settled settled_reject)

lemma rejections_fold_reject:
  "rejections (attempts (fold reject es f)) = rejections (attempts f) @ es"
  by (induction es arbitrary: f) (simp_all add: rejections_reject)

section \<open>The headless readiness flow\<close>

lemma js_if_simps: "js_if True body f = body f" "js_if False body f = f"
  by (simp_all add: js_if_def)

lemma fold_single_if: "fold reject (if b then [e] else []) = js_if b (reject e)"
  by (auto simp add: js_if_def fun_eq_iff)

text \<open>
  The executor calls \<open>reject\<close> once for every entry of \<open>headless_failures\<close>, in
  order, and then \<open>resolve\<close>.
\<close>

lemma headless_checks_fold:
  "headless_checks s f =
     resolve (JStr ''User is ready to transact'') (fold reject (headless_failures s) f)"
  unfolding headless_checks_def headless_failures_def Let_def
  by (cases "accessToAccounts s"; cases "legacyWallet s"; cases "modernWallet s")
     (simp_all add: fold_single_if js_if_simps split del: if_split)

lemma check_fails_range:
  "check_fails s i \<Longrightarrow> i = 1 \<or> i = 2 \<or> i = 3 \<or> i = 4 \<or> i = 5 \<or> i = 6"
  by (simp add: check_fails_def split: if_splits)

lemma first_failure_heads:
  assumes "check_fails s i" and "\<forall>k<i. \<not> check_fails s k"
  shows "\<exists>e rest. headless_failures s = e # rest \<and> error_eventCode e = Some (check_tag s i)"
proof -
  have earlier: "\<And>k. k < i \<Longrightarrow> \<not> check_fails s k"
    using assms(2) by blast
  consider "i = 1" | "i = 2" | "i = 3" | "i = 4" | "i = 5" | "i = 6"
    using check_fails_range [OF assms(1)] by blast
  then show ?thesis
  proof cases
    case 1
    with assms(1) show ?thesis
      by (simp add: check_fails_def headless_failures_def check_tag_def tagged_def)
  next
    case 2
    with earlier [of 1] assms(1) show ?thesis
      by (simp add: check_fails_def headless_failures_def check_tag_def tagged_def)
  next
    case 3
    with earlier [of 1] earlier [of 2] assms(1) show ?thesis
      by (simp add: check_fails_def headless_failures_def check_tag_def tagged_def)
  next
    case 4
    with earlier [of 1] earlier [of 2] earlier [of 3] assms(1) show ?thesis
      by (auto simp add: check_fails_def headless_failures_def check_tag_def tagged_def)
  next
    case 5
    with earlier [of 1] earlier [of 2] earlier [of 3] earlier [of 4] assms(1) show ?thesis
      by (auto simp add: check_fails_def headless_failures_def check_tag_def tagged_def)
  next
    case 6
    with earlier [of 1] earlier [of 2] earlier [of 3] earlier [of 4] earlier [of 5] assms(1)
    show ?thesis
      by (auto simp add: check_fails_def headless_failures_def check_tag_def tagged_def)
  qed
qed

lemma every_failure_rejects:
  assumes "check_fails s j"
  shows "Some (check_tag s j) \<in> error_eventCode ` set (headless_failures s)"
proof -
  consider "j = 1" | "j = 2" | "j = 3" | "j = 4" | "j = 5" | "j = 6"
    using check_fails_range [OF assms] by blast
  then show ?thesis
    using assms
    by cases (auto simp add: check_fails_def headless_failures_def check_tag_def tagged_def image_iff)
qed

lemma no_failure_no_rejection:
  assumes "\<forall>i. \<not> check_fails s i"
  shows "headless_failures s = []"
proof -
  have "\<not> check_fails s 1" "\<not> check_fails s 2" "\<not> check_fails s 3" "\<not> check_fails s 4"
    "\<not> check_fails s 5" "\<not> check_fails s 6"
    using assms by blast+
  then show ?thesis
    by (auto simp add: check_fails_def headless_failures_def)
qed

lemma onboard_headless_fulfilled:
  "headlessMode (config (state w)) \<Longrightarrow> checkUserEnvironment c (state w) = (Fulfilled u, s) \<Longrightarrow>
     onboard c w = (headless_checks s new_future, w\<lparr>state := s\<rparr>)"
  by (simp add: onboard_def)

lemma mobile_world_state:
  "state mobile_world = sample_state\<lparr>mobileDevice := True, validBrowser := False\<rparr>"
  by (simp add: mobile_world_def sample_world_def)

text \<open>
  Claim C1, as amended. In headless mode, when the environment check is fulfilled,
  \<open>onboard\<close> evaluates all six readiness checks without early exit: every failing
  check calls \<open>reject\<close> with its tag, and the executor runs on to its final
  \<open>resolve\<close>. The failure the returned promise reports is that of the first
  failing check: if check \<open>i\<close> fails and no check before it does, the promise is
  rejected with the tag of check \<open>i\<close>, whatever later checks fail (so also when
  \<open>i\<close> is the only failing check); their rejections are discarded.
\<close>

theorem onboard_headless_first_failure_wins:
  assumes "headlessMode (config (state w))"
      and "checkUserEnvironment c (state w) = (Fulfilled u, s)"
      and "check_fails s i"
      and "\<forall>k<i. \<not> check_fails s k"
  shows "(\<exists>e. settled (fst (onboard c w)) = Rejected e \<and> error_eventCode e = Some (check_tag s i))
       \<and> (\<forall>j. check_fails s j \<longrightarrow>
             Some (check_tag s j) \<in> error_eventCode ` set (rejections (attempts (fst (onboard c w)))))
       \<and> last (attempts (fst (onboard c w))) = ResolveCall (JStr ''User is ready to transact'')"
proof -
  have run: "fst (onboard c w) =
      resolve (JStr ''User is ready to transact'') (fold reject (headless_failures s) new_future)"
    using assms(1,2) by (simp add: onboard_headless_fulfilled headless_checks_fold)
  obtain e rest where hd: "headless_failures s = e # rest"
      and tag: "error_eventCode e = Some (check_tag s i)"
    using first_failure_heads [OF assms(3,4)] by blast
  have "settled (fold reject (headless_failures s) (new_future :: js_value future)) = Rejected e"
    using settled_fold_reject [of "new_future :: js_value future" "headless_failures s"]
    by (simp add: new_future_def hd)
  then have first: "settled (fst (onboard c w)) = Rejected e"
    by (simp add: run settled_resolve)
  have all: "rejections (attempts (fst (onboard c w))) = headless_failures s"
    by (simp add: run rejections_resolve rejections_fold_reject new_future_def)
  have final: "last (attempts (fst (onboard c w))) = ResolveCall (JStr ''User is ready to transact'')"
    by (simp add: run resolve_def)
  show ?thesis
    using first tag all final every_failure_rejects by auto
qed

theorem onboard_headless_first_failure_wins_witness:
  "(\<exists>e. settled (fst (onboard sample_collaborators mobile_world)) = Rejected e
        \<and> error_eventCode e = Some ''mobileBlocked'')
   \<and> Some ''browserFail'' \<in>
       error_eventCode ` set (rejections (attempts (fst (onboard sample_collaborators mobile_world))))"
proof -
  let ?s = "sample_state\<lparr>mobileDevice := True, validBrowser := False\<rparr>"
  have h1: "headlessMode (config (state mobile_world))"
    by (simp add: mobile_world_state sample_state_def sample_config_def)
  have h2: "checkUserEnvironment sample_collaborators (state mobile_world) = (Fulfilled (), ?s)"
    by (simp add: mobile_world_state sample_collaborators_def)
  have h3: "check_fails ?s 1"
    by (simp add: check_fails_def)
  have h4: "\<forall>k<1. \<not> check_fails ?s k"
    by (simp add: check_fails_def)
  have second: "check_fails ?s 2"
    by (simp add: check_fails_def sample_state_def)
  have tags: "check_tag ?s 1 = ''mobileBlocked''" "check_tag ?s 2 = ''browserFail''"
    by (simp_all add: check_tag_def)
  show ?thesis
    using onboard_headless_first_failure_wins [OF h1 h2 h3 h4] second tags by auto
qed

text \<open>
  Claim C1 as stated fails when the environment check rejects: \<open>reject\<close> is first
  called with the error of the check, and the promise reports that error, not the
  tag of the first failing readiness check. Here checks 1 and 2 both fail and the
  reported failure carries no \<^verbatim>\<open>mobileBlocked\<close> tag.
\<close>

theorem onboard_headless_environment_failure_counterexample:
  "headlessMode (config (state mobile_world))
   \<and> checkUserEnvironment failing_environment (state mobile_world)
       = (Rejected network_error, state mobile_world)
   \<and> check_fails (state mobile_world) 1
   \<and> check_fails (state mobile_world) 2
   \<and> settled (fst (onboard failing_environment mobile_world)) = Rejected network_error
   \<and> error_eventCode network_error \<noteq> Some (check_tag (state mobile_world) 1)"
  by (simp add: mobile_world_state sample_state_def sample_config_def failing_environment_def
      sample_collaborators_def check_fails_def check_tag_def network_error_def onboard_def
      headless_checks_fold settled_resolve settled_fold_reject_settled settled_reject new_future_def)

text \<open>
  Claim C6. In a headless run where the environment check is fulfilled and none of
  the six readiness checks fails, the returned promise is fulfilled with
  \<^verbatim>\<open>'User is ready to transact'\<close> and \<open>reject\<close> is never called.
\<close>

theorem onboard_headless_ready:
  assumes "headlessMode (config (state w))"
      and "checkUserEnvironment c (state w) = (Fulfilled u, s)"
      and "\<forall>i. \<not> check_fails s i"
  shows "settled (fst (onboard c w)) = Fulfilled (JStr ''User is ready to transact'')
       \<and> rejections (attempts (fst (onboard c w))) = []"
proof -
  have run: "fst (onboard c w) =
      resolve (JStr ''User is ready to transact'') (fold reject (headless_failures s) new_future)"
    using assms(1,2) by (simp add: onboard_headless_fulfilled headless_checks_fold)
  have none: "headless_failures s = []"
    by (rule no_failure_no_rejection [OF assms(3)])
  show ?thesis
    by (simp add: run none settled_resolve rejections_resolve new_future_def)
qed

theorem onboard_headless_ready_witness:
  "settled (fst (onboard sample_collaborators sample_world))
     = Fulfilled (JStr ''User is ready to transact'')
   \<and> rejections (attempts (fst (onboard sample_collaborators sample_world))) = []"
proof -
  have h1: "headlessMode (config (state sample_world))"
    by (simp add: sample_world_def sample_state_def sample_config_def)
  have h2: "checkUserEnvironment sample_collaborators (state sample_world)
              = (Fulfilled (), sample_state)"
    by (simp add: sample_world_def sample_collaborators_def)
  have h3: "\<forall>i. \<not> check_fails sample_state i"
    by (simp add: check_fails_def sample_state_def)
  show ?thesis
    by (rule onboard_headless_ready [OF h1 h2 h3])
qed

section \<open>init without an API key\<close>

text \<open>
  Claim C5. For a configuration whose \<^verbatim>\<open>dappId\<close> is missing (or empty), \<open>init\<close>
  calls the Event Notifier with \<^verbatim>\<open>eventCode: 'initFail'\<close> and the reason
  \<^verbatim>\<open>'No API key provided to init function'\<close>, and throws an error tagged
  \<^verbatim>\<open>initFail\<close>: no API object is returned.
\<close>

theorem init_without_dappId:
  assumes "dappId conf = None \<or> dappId conf = Some []"
  shows "snd (init c (Some conf) w) = Inl (Error ''API key is required'' (Some ''initFail''))
       \<and> notified (fst (init c (Some conf) w))
           = notified w @
             [(\<lparr>eventCode = ''initFail'', categoryCode = ''initialize'',
                reason = Some ''No API key provided to init function'', payload = NoPayload\<rparr>, None)]
       \<and> validApiKey (state (fst (init c (Some conf) w))) = False"
  using assms
  by (auto simp add: init_def Let_def handleEvent_def updateState_def plain_event_def)

theorem init_without_dappId_witness:
  "snd (init sample_collaborators (Some empty_config) sample_world)
     = Inl (Error ''API key is required'' (Some ''initFail''))
   \<and> notified (fst (init sample_collaborators (Some empty_config) sample_world))
       = [(\<lparr>eventCode = ''initFail'', categoryCode = ''initialize'',
            reason = Some ''No API key provided to init function'', payload = NoPayload\<rparr>, None)]"
proof -
  have h: "dappId empty_config = None \<or> dappId empty_config = Some []"
    by (simp add: empty_config_def)
  show ?thesis
    using init_without_dappId [OF h, of sample_collaborators sample_world]
    by (simp add: sample_world_def)
qed

section \<open>The interactive mobile block\<close>

lemma ui_run_settled:
  "settled (ui_run (OnClose e) steps f) =
     (if settled f = Pending then (if Dismissed \<in> set steps then Rejected e else Pending)
      else settled f)"
proof (induction steps arbitrary: f)
  case Nil
  then show ?case by simp
next
  case (Cons step steps)
  then show ?case by (cases step) (simp_all add: settled_reject)
qed

text \<open>
  Claim C7. In interactive mode on a mobile device, with a valid API key and a
  supported network, \<open>onboard\<close> notifies \<^verbatim>\<open>mobileBlocked\<close> in category
  \<^verbatim>\<open>onboard\<close> with an \<^verbatim>\<open>onClose\<close> hook, sets \<^verbatim>\<open>validBrowser\<close> to false, and
  returns a pending promise on which neither \<open>resolve\<close> nor \<open>reject\<close> was called.
  Through any sequence of steps of the presentation layer the promise stays pending
  until the hook is run, and from then on it is rejected with the error tagged
  \<^verbatim>\<open>mobileBlocked\<close>.
\<close>

theorem onboard_interactive_mobile:
  assumes "\<not> headlessMode (config (state w))"
      and "validApiKey (state w)"
      and "supportedNetwork (state w)"
      and "mobileDevice (state w)"
  shows "notified (snd (onboard c w)) =
           notified w @ [(\<lparr>eventCode = ''mobileBlocked'', categoryCode = ''onboard'',
                            reason = None, payload = NoPayload\<rparr>, Some (OnClose mobile_error))]
       \<and> error_eventCode mobile_error = Some ''mobileBlocked''
       \<and> validBrowser (state (snd (onboard c w))) = False
       \<and> settled (fst (onboard c w)) = Pending
       \<and> attempts (fst (onboard c w)) = []
       \<and> (\<forall>steps. settled (ui_run (OnClose mobile_error) steps (fst (onboard c w))) =
            (if Dismissed \<in> set steps then Rejected mobile_error else Pending))"
proof -
  have run: "onboard c w =
      (new_future,
       updateState (\<lambda>s. s\<lparr>validBrowser := False\<rparr>)
         (handleEvent (plain_event ''mobileBlocked'' ''onboard'' None) (Some (OnClose mobile_error)) w))"
    using assms by (simp add: onboard_def Let_def)
  show ?thesis
    by (simp add: run ui_run_settled new_future_def updateState_def handleEvent_def
        plain_event_def mobile_error_def tagged_def)
qed

theorem onboard_interactive_mobile_witness:
  "settled (fst (onboard sample_collaborators interactive_mobile_world)) = Pending
   \<and> settled (ui_run (OnClose mobile_error) [Idle, Idle]
        (fst (onboard sample_collaborators interactive_mobile_world))) = Pending
   \<and> settled (ui_run (OnClose mobile_error) [Idle, Dismissed, Idle]
        (fst (onboard sample_collaborators interactive_mobile_world))) = Rejected mobile_error
   \<and> validBrowser (state (snd (onboard sample_collaborators interactive_mobile_world))) = False"
proof -
  have h1: "\<not> headlessMode (config (state interactive_mobile_world))"
    by (simp add: interactive_mobile_world_def sample_world_def)
  have h2: "validApiKey (state interactive_mobile_world)"
    by (simp add: interactive_mobile_world_def sample_world_def sample_state_def)
  have h3: "supportedNetwork (state interactive_mobile_world)"
    by (simp add: interactive_mobile_world_def sample_world_def sample_state_def)
  have h4: "mobileDevice (state interactive_mobile_world)"
    by (simp add: interactive_mobile_world_def sample_world_def)
  note facts = onboard_interactive_mobile [OF h1 h2 h3 h4, of sample_collaborators]
  from facts have later:
    "\<And>steps. settled (ui_run (OnClose mobile_error) steps
        (fst (onboard sample_collaborators interactive_mobile_world))) =
        (if Dismissed \<in> set steps then Rejected mobile_error else Pending)"
    by blast
  from facts later [of "[Idle, Idle]"] later [of "[Idle, Dismissed, Idle]"]
  show ?thesis
    by (simp del: ui_run.simps)
qed

section \<open>Wrapping a contract\<close>

lemma map_of_set_prop:
  "map_of (set_prop k v ps) k' = (if k' = k then Some v else map_of ps k')"
  by (induction ps) auto

lemma legacy_step_lookup:
  assumes "legacy_step abi contractObj acc key = Inr acc'"
      and "passes_through True abi k"
  shows "map_of acc' k = (if k = key then Some (get_prop contractObj k) else map_of acc k)"
  using assms
  by (auto simp add: legacy_step_def passes_through_def map_of_set_prop
      split: option.splits sum.splits)

lemma modern_step_lookup:
  assumes "modern_step abi contractObj acc key = Inr acc'"
      and "passes_through False abi k"
  shows "map_of acc' k = (if k = key then Some (get_prop contractObj k) else map_of acc k)"
  using assms
  by (auto simp add: modern_step_def passes_through_def map_of_set_prop
      split: option.splits sum.splits if_splits)

lemma delegate_lookup:
  assumes "delegate legacy abi contractObj keys acc = Inr res"
      and "passes_through legacy abi k"
  shows "map_of res k = (if k \<in> set keys then Some (get_prop contractObj k) else map_of acc k)"
  using assms
proof (induction keys arbitrary: acc)
  case Nil
  then show ?case by simp
next
  case (Cons key keys)
  show ?case
  proof (cases legacy)
    case True
    from Cons.prems(1) True obtain acc' where
      step: "legacy_step abi contractObj acc key = Inr acc'"
      and rest: "delegate legacy abi contractObj keys acc' = Inr res"
      by (auto split: sum.splits)
    from legacy_step_lookup [OF step] Cons.prems(2) True
    have "map_of acc' k = (if k = key then Some (get_prop contractObj k) else map_of acc k)"
      by simp
    with Cons.IH [OF rest Cons.prems(2)] show ?thesis by auto
  next
    case False
    from Cons.prems(1) False obtain acc' where
      step: "modern_step abi contractObj acc key = Inr acc'"
      and rest: "delegate legacy abi contractObj keys acc' = Inr res"
      by (auto split: sum.splits)
    from modern_step_lookup [OF step] Cons.prems(2) False
    have "map_of acc' k = (if k = key then Some (get_prop contractObj k) else map_of acc k)"
      by simp
    with Cons.IH [OF rest Cons.prems(2)] show ?thesis by auto
  qed
qed

lemma Contract_returns:
  assumes "Contract c conf fresh contractObj w = (w', Inr wrapped)"
  shows "wrapped = contractObj \<or>
         (\<exists>abi newOwn. resolve_abi contractObj = Inr abi
            \<and> delegate (legacyWeb3 (state w')) abi contractObj (map fst (own contractObj)) [] = Inr newOwn
            \<and> wrapped = \<lparr>ident = fresh, own = newOwn, proto = proto contractObj\<rparr>)"
proof (cases "mobileDevice (state w) \<and> \<not> mobileBlocked conf")
  case True
  with assms have "wrapped = contractObj"
    by (simp add: Contract_def split: if_splits)
  then show ?thesis ..
next
  case False
  define w1 where "w1 = (if web3Instance (state w) = None
                          then updateState (configureWeb3 c None) w else w)"
  from assms False have guards: "validApiKey (state w)" "supportedNetwork (state w)"
      "\<not> (web3Instance (state w) = None \<and> \<not> window_web3 w)"
    by (auto simp add: Contract_def split: if_splits)
  from assms False guards have body:
    "(case resolve_abi contractObj of
        Inl e \<Rightarrow> (w1, Inl e)
      | Inr abi \<Rightarrow>
          (case delegate (legacyWeb3 (state w1)) abi contractObj (map fst (own contractObj)) [] of
             Inl e \<Rightarrow> (w1, Inl e)
           | Inr newOwn \<Rightarrow> (w1, Inr \<lparr>ident = fresh, own = newOwn, proto = proto contractObj\<rparr>)))
     = (w', Inr wrapped)"
    unfolding Contract_def Let_def w1_def [symmetric] by (simp split del: if_split)
  show ?thesis
  proof (cases "resolve_abi contractObj")
    case (Inl e)
    with body show ?thesis by simp
  next
    case (Inr abi)
    show ?thesis
    proof (cases "delegate (legacyWeb3 (state w1)) abi contractObj (map fst (own contractObj)) []")
      case (Inl e)
      with body Inr show ?thesis by simp
    next
      case inner: (Inr newOwn)
      with body Inr have "w' = w1"
        and "wrapped = \<lparr>ident = fresh, own = newOwn, proto = proto contractObj\<rparr>"
        by simp_all
      with Inr inner show ?thesis by simp
    qed
  qed
qed

lemma Contract_body:
  assumes "validApiKey (state w)" and "supportedNetwork (state w)"
      and "\<not> (mobileDevice (state w) \<and> \<not> mobileBlocked conf)"
      and "web3Instance (state w) \<noteq> None \<or> window_web3 w"
      and "w1 = (if web3Instance (state w) = None then updateState (configureWeb3 c None) w else w)"
      and "resolve_abi contractObj = Inr abi"
      and "delegate (legacyWeb3 (state w1)) abi contractObj (map fst (own contractObj)) [] = Inr newOwn"
  shows "Contract c conf fresh contractObj w =
           (w1, Inr \<lparr>ident = fresh, own = newOwn, proto = proto contractObj\<rparr>)"
proof -
  have "Contract c conf fresh contractObj w =
      (case resolve_abi contractObj of
        Inl e \<Rightarrow> (w1, Inl e)
      | Inr abi \<Rightarrow>
          (case delegate (legacyWeb3 (state w1)) abi contractObj (map fst (own contractObj)) [] of
             Inl e \<Rightarrow> (w1, Inl e)
           | Inr newOwn \<Rightarrow> (w1, Inr \<lparr>ident = fresh, own = newOwn, proto = proto contractObj\<rparr>)))"
  proof -
    have fast: "(mobileDevice (state w) \<and> \<not> mobileBlocked conf) = False"
      using assms(3) by simp
    have missing: "(web3Instance (state w) = None \<and> \<not> window_web3 w) = False"
      using assms(4) by auto
    show ?thesis
      unfolding Contract_def Let_def assms(5) [symmetric]
      by (simp only: assms(1,2) fast missing not_True_eq_False if_False)
  qed
  then show ?thesis
    by (simp add: assms(6,7))
qed

lemma Contract_legacy_sample:
  "Contract sample_collaborators sample_config 99 legacy_contract legacy_world
     = (legacy_world, Inr wrapped_legacy_contract)"
  by (simp add: Contract_def legacy_world_def sample_world_def sample_state_def sample_config_def
      legacy_contract_def wrapped_legacy_contract_def resolve_abi_def get_prop_def
      legacy_step_def transfer_abi_def isOwner_abi_def)

lemma Contract_modern_sample:
  "Contract sample_collaborators sample_config 99 modern_contract sample_world
     = (sample_world, Inr wrapped_modern_contract)"
  by (simp add: Contract_def sample_world_def sample_state_def sample_config_def
      modern_contract_def wrapped_modern_contract_def resolve_abi_def get_prop_def
      modern_step_def transfer_abi_def burn_abi_def prop_key_def inherited_def
      object_prototype_keys_def)

text \<open>
  Claim C8. When \<open>Contract\<close> returns a contract object, reading from it an own key
  of the original that names no entry of the ABI (legacy path), or that is not
  \<^verbatim>\<open>methods\<close> (modern path), gives the very value the original holds under that
  key.
\<close>

theorem Contract_passthrough:
  assumes "Contract c conf fresh contractObj w = (w', Inr wrapped)"
      and "key \<in> fst ` set (own contractObj)"
      and "if legacyWeb3 (state w') then \<not> is_abi_key contractObj key else key \<noteq> ''methods''"
  shows "get_prop wrapped key = get_prop contractObj key"
proof -
  from Contract_returns [OF assms(1)] consider
    (same) "wrapped = contractObj"
  | (built) abi newOwn where "resolve_abi contractObj = Inr abi"
      "delegate (legacyWeb3 (state w')) abi contractObj (map fst (own contractObj)) [] = Inr newOwn"
      "wrapped = \<lparr>ident = fresh, own = newOwn, proto = proto contractObj\<rparr>"
    by blast
  then show ?thesis
  proof cases
    case same
    then show ?thesis by simp
  next
    case built
    have "passes_through (legacyWeb3 (state w')) abi key"
      using assms(3) built(1)
      by (auto simp add: passes_through_def is_abi_key_def split: option.splits)
    from delegate_lookup [OF built(2) this] assms(2)
    have "map_of newOwn key = Some (get_prop contractObj key)"
      by simp
    then show ?thesis
      by (simp add: built(3) get_prop_def)
  qed
qed

theorem Contract_passthrough_witness:
  "get_prop wrapped_legacy_contract ''address'' = Plain (JStr ''0xc0ffee'')
   \<and> get_prop wrapped_modern_contract ''_address'' = Plain (JStr ''0xc0ffee'')"
proof -
  have l2: "''address'' \<in> fst ` set (own legacy_contract)"
    by (simp add: legacy_contract_def)
  have l3: "if legacyWeb3 (state legacy_world) then \<not> is_abi_key legacy_contract ''address''
            else ''address'' \<noteq> ''methods''"
    by (simp add: legacy_world_def sample_world_def is_abi_key_def resolve_abi_def get_prop_def
        legacy_contract_def transfer_abi_def isOwner_abi_def)
  have m2: "''_address'' \<in> fst ` set (own modern_contract)"
    by (simp add: modern_contract_def)
  have m3: "if legacyWeb3 (state sample_world) then \<not> is_abi_key modern_contract ''_address''
            else ''_address'' \<noteq> ''methods''"
    by (simp add: sample_world_def sample_state_def)
  from Contract_passthrough [OF Contract_legacy_sample l2 l3]
       Contract_passthrough [OF Contract_modern_sample m2 m3]
  show ?thesis
    by (simp add: get_prop_def legacy_contract_def modern_contract_def)
qed

text \<open>
  Claim C4, as amended. When the API key is valid and the network is supported, the
  device is mobile and the configuration does not set \<^verbatim>\<open>mobileBlocked\<close>, then
  \<open>Contract\<close> returns the contract object it was given, the same reference with
  the same properties, and leaves the world as it was.
\<close>

theorem Contract_mobile_fast_path:
  assumes "validApiKey (state w)" and "supportedNetwork (state w)"
      and "mobileDevice (state w)" and "\<not> mobileBlocked conf"
  shows "Contract c conf fresh contractObj w = (w, Inr contractObj)"
  using assms by (simp add: Contract_def)

theorem Contract_mobile_fast_path_witness:
  "Contract sample_collaborators open_config 99 modern_contract allowed_mobile_world
     = (allowed_mobile_world, Inr modern_contract)"
proof -
  have h1: "validApiKey (state allowed_mobile_world)"
    by (simp add: allowed_mobile_world_def sample_world_def sample_state_def)
  have h2: "supportedNetwork (state allowed_mobile_world)"
    by (simp add: allowed_mobile_world_def sample_world_def sample_state_def)
  have h3: "mobileDevice (state allowed_mobile_world)"
    by (simp add: allowed_mobile_world_def sample_world_def)
  have h4: "\<not> mobileBlocked open_config"
    by (simp add: open_config_def)
  show ?thesis
    by (rule Contract_mobile_fast_path [OF h1 h2 h3 h4])
qed

text \<open>
  Claim C4 as stated fails where the API key is not valid: the two guards stand
  before the mobile fast path, and \<open>Contract\<close> throws the error tagged
  \<^verbatim>\<open>initFail\<close> although the device is mobile and mobile is not blocked.
\<close>

theorem Contract_mobile_invalid_key_counterexample:
  "mobileDevice (state invalid_key_mobile_world)
   \<and> \<not> mobileBlocked open_config
   \<and> Contract sample_collaborators open_config 99 modern_contract invalid_key_mobile_world
       = (invalid_key_mobile_world, Inl (Error ''Your API key is not valid'' (Some ''initFail'')))"
  by (simp add: Contract_def invalid_key_mobile_world_def sample_world_def sample_state_def
      open_config_def tagged_def)

subsection \<open>ABI entries without a method\<close>

lemma modern_methods_total:
  "\<exists>res. modern_methods (MethodMap ms) es acc = Inr res
     \<and> (\<forall>k. (\<forall>e \<in> set es. prop_key (name e) \<noteq> k) \<longrightarrow> map_of res k = map_of acc k)
     \<and> (\<forall>k. (\<exists>e \<in> set es. prop_key (name e) = k) \<longrightarrow>
           (\<exists>e \<in> set es. prop_key (name e) = k
              \<and> map_of res k =
                  Some (ModernDelegate (case map_of ms k of Some v \<Rightarrow> v | None \<Rightarrow> inherited k) e)))"
proof (induction es arbitrary: acc)
  case Nil
  then show ?case by simp
next
  case (Cons entry es)
  let ?k = "prop_key (name entry)"
  let ?acc = "set_prop ?k
      (ModernDelegate (case map_of ms ?k of Some v \<Rightarrow> v | None \<Rightarrow> inherited ?k) entry) acc"
  from Cons.IH [of ?acc] obtain res where
    res: "modern_methods (MethodMap ms) es ?acc = Inr res"
    and keep: "\<And>k. (\<forall>e \<in> set es. prop_key (name e) \<noteq> k) \<Longrightarrow> map_of res k = map_of ?acc k"
    and made: "\<And>k. (\<exists>e \<in> set es. prop_key (name e) = k) \<Longrightarrow>
           (\<exists>e \<in> set es. prop_key (name e) = k
              \<and> map_of res k =
                  Some (ModernDelegate (case map_of ms k of Some v \<Rightarrow> v | None \<Rightarrow> inherited k) e))"
    by blast
  have run: "modern_methods (MethodMap ms) (entry # es) acc = Inr res"
    using res by simp
  have untouched: "\<forall>k. (\<forall>e \<in> set (entry # es). prop_key (name e) \<noteq> k) \<longrightarrow> map_of res k = map_of acc k"
    using keep by (auto simp add: map_of_set_prop)
  have defined: "\<forall>k. (\<exists>e \<in> set (entry # es). prop_key (name e) = k) \<longrightarrow>
           (\<exists>e \<in> set (entry # es). prop_key (name e) = k
              \<and> map_of res k =
                  Some (ModernDelegate (case map_of ms k of Some v \<Rightarrow> v | None \<Rightarrow> inherited k) e))"
  proof (intro allI impI)
    fix k
    assume some: "\<exists>e \<in> set (entry # es). prop_key (name e) = k"
    show "\<exists>e \<in> set (entry # es). prop_key (name e) = k
              \<and> map_of res k =
                  Some (ModernDelegate (case map_of ms k of Some v \<Rightarrow> v | None \<Rightarrow> inherited k) e)"
    proof (cases "\<exists>e \<in> set es. prop_key (name e) = k")
      case True
      from made [OF True] show ?thesis by auto
    next
      case False
      with some have k: "prop_key (name entry) = k" by auto
      from False have "map_of res k = map_of ?acc k"
        using keep by blast
      with k show ?thesis by (auto simp add: map_of_set_prop)
    qed
  qed
  from run untouched defined show ?case by blast
qed

lemma modern_step_total:
  assumes "get_prop contractObj ''methods'' = MethodMap ms"
      and "modern_methods (MethodMap ms) es [] = Inr wms"
  shows "\<exists>acc'. modern_step (Some es) contractObj acc key = Inr acc'
           \<and> map_of acc' ''methods'' =
               (if key = ''methods'' then Some (MethodMap wms) else map_of acc ''methods'')"
proof (cases "key = ''methods''")
  case True
  with assms show ?thesis
    by (simp add: modern_step_def map_of_set_prop)
next
  case False
  then show ?thesis
    by (simp add: modern_step_def map_of_set_prop)
qed

lemma delegate_modern_total:
  assumes "get_prop contractObj ''methods'' = MethodMap ms"
      and "modern_methods (MethodMap ms) es [] = Inr wms"
  shows "\<exists>res. delegate False (Some es) contractObj keys acc = Inr res
           \<and> map_of res ''methods'' =
               (if ''methods'' \<in> set keys then Some (MethodMap wms) else map_of acc ''methods'')"
proof (induction keys arbitrary: acc)
  case Nil
  then show ?case by simp
next
  case (Cons key keys)
  from modern_step_total [OF assms, of acc key] obtain acc' where
    step: "modern_step (Some es) contractObj acc key = Inr acc'"
    and here: "map_of acc' ''methods'' =
               (if key = ''methods'' then Some (MethodMap wms) else map_of acc ''methods'')"
    by blast
  from Cons.IH [of acc'] obtain res where
    rest: "delegate False (Some es) contractObj keys acc' = Inr res"
    and later: "map_of res ''methods'' =
               (if ''methods'' \<in> set keys then Some (MethodMap wms) else map_of acc' ''methods'')"
    by blast
  from step rest have "delegate False (Some es) contractObj (key # keys) acc = Inr res"
    by simp
  moreover from here later have "map_of res ''methods'' =
      (if ''methods'' \<in> set (key # keys) then Some (MethodMap wms) else map_of acc ''methods'')"
    by auto
  ultimately show ?case by blast
qed

text \<open>
  Claim C9, as amended. Take a contract object that has an own \<^verbatim>\<open>methods\<close>
  mapping and whose ABI has an entry named \<open>n\<close> that the mapping lacks. When the
  API key is valid, the network is supported, a provider instance is configured or
  \<^verbatim>\<open>window.web3\<close> is present, the call is not on the mobile fast path and the
  provider is a modern one, the construction returns a wrapped object and throws
  nothing. Its \<^verbatim>\<open>methods\<close> hold under \<open>n\<close> a delegate, built for an entry of the
  ABI with that key, that captured what \<^verbatim>\<open>contractObj.methods[n]\<close> reads:
  \<^verbatim>\<open>undefined\<close>, or the property every object inherits when \<open>n\<close> is such a name
  (\<^verbatim>\<open>toString\<close>, \<^verbatim>\<open>constructor\<close>, ...). Calling the delegate hands that value to
  \<open>modernMethod\<close>: a failure can only come from there.
\<close>

theorem Contract_modern_absent_method:
  assumes "validApiKey (state w)" and "supportedNetwork (state w)"
      and "\<not> (mobileDevice (state w) \<and> \<not> mobileBlocked conf)"
      and "web3Instance (state w) \<noteq> None \<or> window_web3 w"
      and "w1 = (if web3Instance (state w) = None then updateState (configureWeb3 c None) w else w)"
      and "\<not> legacyWeb3 (state w1)"
      and "resolve_abi contractObj = Inr (Some es)"
      and "map_of (own contractObj) ''methods'' = Some (MethodMap ms)"
      and "entry \<in> set es" and "name entry = Some n" and "map_of ms n = None"
  shows "\<exists>wrapped wms e.
           Contract c conf fresh contractObj w = (w1, Inr wrapped)
         \<and> get_prop wrapped ''methods'' = MethodMap wms
         \<and> map_of wms n = Some (ModernDelegate (inherited n) e)
         \<and> e \<in> set es \<and> prop_key (name e) = n
         \<and> inherited n =
             (if n \<in> set object_prototype_keys then Inherited n else Plain JUndefined)
         \<and> (\<forall>xs. invoke c (ModernDelegate (inherited n) e) xs
                  = modernMethod c (inherited n) e xs)"
proof -
  have mv: "get_prop contractObj ''methods'' = MethodMap ms"
    using assms(8) by (simp add: get_prop_def)
  from modern_methods_total [of ms es "[]"] obtain wms where
    wms: "modern_methods (MethodMap ms) es [] = Inr wms"
    and made: "\<And>k. (\<exists>e \<in> set es. prop_key (name e) = k) \<Longrightarrow>
           (\<exists>e \<in> set es. prop_key (name e) = k
              \<and> map_of wms k =
                  Some (ModernDelegate (case map_of ms k of Some v \<Rightarrow> v | None \<Rightarrow> inherited k) e))"
    by blast
  have "\<exists>e \<in> set es. prop_key (name e) = n"
    using assms(9,10) by (intro bexI [of _ entry]) (simp_all add: prop_key_def)
  from made [OF this] assms(11) obtain e where
    e: "e \<in> set es" "prop_key (name e) = n"
       "map_of wms n = Some (ModernDelegate (inherited n) e)"
    by auto
  have keys: "''methods'' \<in> set (map fst (own contractObj))"
    using assms(8) by (metis map_of_eq_None_iff option.distinct(1) set_map)
  from delegate_modern_total [OF mv wms, of "map fst (own contractObj)" "[]"] keys
  obtain newOwn where
    built: "delegate False (Some es) contractObj (map fst (own contractObj)) [] = Inr newOwn"
    and ms': "map_of newOwn ''methods'' = Some (MethodMap wms)"
    by auto
  from built assms(6) have
    "delegate (legacyWeb3 (state w1)) (Some es) contractObj (map fst (own contractObj)) [] = Inr newOwn"
    by simp
  from Contract_body [OF assms(1-5) assms(7) this]
  have ret: "Contract c conf fresh contractObj w =
      (w1, Inr \<lparr>ident = fresh, own = newOwn, proto = proto contractObj\<rparr>)" .
  have got: "get_prop \<lparr>ident = fresh, own = newOwn, proto = proto contractObj\<rparr> ''methods'' = MethodMap wms"
    using ms' by (simp add: get_prop_def)
  show ?thesis
    using ret got e by (auto simp add: inherited_def)
qed

theorem Contract_modern_absent_method_witness:
  "\<exists>wrapped wms e.
      Contract sample_collaborators sample_config 99 modern_contract sample_world
        = (sample_world, Inr wrapped)
    \<and> get_prop wrapped ''methods'' = MethodMap wms
    \<and> map_of wms ''burn'' = Some (ModernDelegate (Plain JUndefined) e)
    \<and> invoke sample_collaborators (ModernDelegate (Plain JUndefined) e) [] = Inl TypeError"
proof -
  have h1: "validApiKey (state sample_world)" and h2: "supportedNetwork (state sample_world)"
    by (simp_all add: sample_world_def sample_state_def)
  have h3: "\<not> (mobileDevice (state sample_world) \<and> \<not> mobileBlocked sample_config)"
    by (simp add: sample_world_def sample_state_def)
  have h4: "web3Instance (state sample_world) \<noteq> None \<or> window_web3 sample_world"
    by (simp add: sample_world_def)
  have h5: "sample_world = (if web3Instance (state sample_world) = None
              then updateState (configureWeb3 sample_collaborators None) sample_world
              else sample_world)"
    by (simp add: sample_world_def sample_state_def)
  have h6: "\<not> legacyWeb3 (state sample_world)"
    by (simp add: sample_world_def sample_state_def)
  have h7: "resolve_abi modern_contract = Inr (Some [transfer_abi, burn_abi])"
    by (simp add: resolve_abi_def get_prop_def modern_contract_def)
  have h8: "map_of (own modern_contract) ''methods'' = Some (MethodMap [(''transfer'', RawMethod 20 None)])"
    by (simp add: modern_contract_def)
  have h9: "burn_abi \<in> set [transfer_abi, burn_abi]"
    by simp
  have h10: "name burn_abi = Some ''burn''"
    by (simp add: burn_abi_def)
  have h11: "map_of [(''transfer'', RawMethod 20 None)] ''burn'' = None"
    by simp
  have plain: "inherited ''burn'' = Plain JUndefined"
    by (simp add: inherited_def object_prototype_keys_def)
  have fails: "modernMethod sample_collaborators (Plain JUndefined) e [] = Inl TypeError" for e
    by (simp add: sample_collaborators_def)
  from Contract_modern_absent_method [where fresh = 99, OF h1 h2 h3 h4 h5 h6 h7 h8 h9 h10 h11]
  show ?thesis
    unfolding plain using fails by (metis invoke.simps(2))
qed

text \<open>
  Claim C9 as stated fails where the guards of \<open>Contract\<close> do not let the
  construction begin, or end it at once. The ABI of the contract lists \<^verbatim>\<open>burn\<close>,
  which its \<^verbatim>\<open>methods\<close> lack; with an API key that is not valid \<open>Contract\<close>
  throws the error tagged \<^verbatim>\<open>initFail\<close>, and on the mobile fast path it returns the
  original, whose \<^verbatim>\<open>methods\<close> hold no handle for \<^verbatim>\<open>burn\<close>.
\<close>

theorem Contract_absent_method_guard_counterexample:
  "resolve_abi modern_contract = Inr (Some [transfer_abi, burn_abi])
   \<and> name burn_abi = Some ''burn''
   \<and> member (get_prop modern_contract ''methods'') ''burn'' = Inr (Plain JUndefined)
   \<and> Contract sample_collaborators sample_config 99 modern_contract invalid_key_world
       = (invalid_key_world, Inl (Error ''Your API key is not valid'' (Some ''initFail'')))
   \<and> Contract sample_collaborators open_config 99 modern_contract allowed_mobile_world
       = (allowed_mobile_world, Inr modern_contract)"
  by (simp add: Contract_def invalid_key_world_def allowed_mobile_world_def sample_world_def
      sample_state_def sample_config_def open_config_def tagged_def resolve_abi_def get_prop_def
      modern_contract_def burn_abi_def inherited_def object_prototype_keys_def)

section \<open>Settlement of a transaction\<close>





section \<open>The call delegate of a legacy method\<close>

text \<open>What \<^verbatim>\<open>.call\<close> does when the provider call is fulfilled, and when it is rejected.\<close>

lemma delegate_call_fulfilled:
  assumes "separateArgs c allArgs n = Separated cb params tx block"
      and "provider_call c h (params @ [tx, block]) = Fulfilled result"
  shows "delegate_call c (RawMethod h g) methodName n allArgs w =
     \<lparr>returned = Fulfilled (),
      callbacks = (case cb of Some k \<Rightarrow> if truthy result then [CbResult result] else []
                   | None \<Rightarrow> []),
      after = handleEvent
                \<lparr>eventCode = ''contractQuery'', categoryCode = ''activeContract'', reason = None,
                 payload = ContractInfo methodName params (JSON_stringify result)\<rparr> None w\<rparr>"
  using assms
  by (cases cb) (simp_all add: delegate_call_def call_finish_def call_back_def)

theorem delegate_call_rejected:
  assumes "separateArgs c allArgs n = Separated cb params tx block"
      and "provider_call c h (params @ [tx, block]) = Rejected errorObj"
  shows "delegate_call c (RawMethod h g) methodName n allArgs w =
     \<lparr>returned = Fulfilled (),
      callbacks = (case cb of
                     None \<Rightarrow> []
                   | Some k \<Rightarrow>
                       CbError errorObj #
                       (if truthy (k (CbError errorObj)) then [CbResult (k (CbError errorObj))]
                        else [])),
      after = handleEvent
                \<lparr>eventCode = ''contractQuery'', categoryCode = ''activeContract'', reason = None,
                 payload = ContractInfo methodName params
                   (JSON_stringify
                      (case cb of None \<Rightarrow> JUndefined | Some k \<Rightarrow> k (CbError errorObj)))\<rparr>
                None w\<rparr>"
  using assms
  by (cases cb) (simp_all add: delegate_call_def call_finish_def call_back_def)

text \<open>
  Claim C3 at a result that is not truthy. The wrapped \<^verbatim>\<open>isOwner.call(addr, cb)\<close>
  of a legacy contract, with a provider that answers \<^verbatim>\<open>false\<close>: the
  \<^verbatim>\<open>contractQuery\<close> event is emitted once, with the result \<^verbatim>\<open>"false"\<close>, and the
  promise is fulfilled, but the callback is never called with \<^verbatim>\<open>(null, false)\<close>:
  the test \<^verbatim>\<open>if (result)\<close> takes the result for a missing one.
\<close>

theorem delegate_call_false_result:
  "invoke_call sample_collaborators (get_prop wrapped_legacy_contract ''isOwner'')
     [Val (JStr ''0xabc''), Fn silent_callback] legacy_world
   = Inr \<lparr>returned = Fulfilled (),
          callbacks = [],
          after = legacy_world
            \<lparr>notified :=
               [(\<lparr>eventCode = ''contractQuery'', categoryCode = ''activeContract'', reason = None,
                  payload = ContractInfo ''isOwner'' [JStr ''0xabc''] (Some ''false'')\<rparr>, None)]\<rparr>\<rparr>"
  by (simp add: get_prop_def wrapped_legacy_contract_def delegate_call_def call_finish_def
      call_back_def sample_collaborators_def handleEvent_def legacy_world_def sample_world_def)

text \<open>
  Claim C10 at a callback that returns a value. The provider call is rejected and the
  callback, called with the error, returns \<^verbatim>\<open>true\<close>: that value is bound to
  \<^verbatim>\<open>result\<close>, so the callback is called a second time, with \<^verbatim>\<open>(null, true)\<close>, and
  the event carries \<^verbatim>\<open>"true"\<close>, not the serialization of \<^verbatim>\<open>undefined\<close>.
\<close>

theorem delegate_call_rejected_callback_value:
  "provider_call rejecting_provider 12 ([JStr ''0xabc''] @ [JUndefined, JUndefined])
     = Rejected reverted_error
   \<and> notified (after (delegate_call rejecting_provider (RawMethod 12 (Some 13)) ''isOwner'' 1
        [Val (JStr ''0xabc''), Fn acknowledging_callback] legacy_world))
       = [(\<lparr>eventCode = ''contractQuery'', categoryCode = ''activeContract'', reason = None,
            payload = ContractInfo ''isOwner'' [JStr ''0xabc''] (Some ''true'')\<rparr>, None)]
   \<and> JSON_stringify JUndefined \<noteq> Some ''true''
   \<and> callbacks (delegate_call rejecting_provider (RawMethod 12 (Some 13)) ''isOwner'' 1
        [Val (JStr ''0xabc''), Fn acknowledging_callback] legacy_world)
       = [CbError reverted_error, CbResult (JBool True)]"
  by (simp add: delegate_call_def call_finish_def call_back_def rejecting_provider_def
      sample_collaborators_def handleEvent_def legacy_world_def sample_world_def
      acknowledging_callback_def)

end
